theory Spec2Isabelle
  imports Complex_Main
begin

section \<open>The beam analysis of BeamLoadCalculator\<close>

text \<open>
  The beam engine of the repository is the function \<^verbatim>\<open>calculate\<close> of the
  BeamLoadCalculator component. It reads the current \<^verbatim>\<open>inputs\<close>, checks them,
  resolves the cross-section, computes reactions and peak values for one of four
  support/load cases, samples 101 diagram points and stores the assembled result with
  \<^verbatim>\<open>setResult\<close>.

  Numbers: the source computes with JavaScript doubles. A double is modelled by the
  real number it stands for; overflow and NaN inputs are outside the model. The one way
  the source's arithmetic can leave the finite numbers on real inputs is a division by
  zero; every division whose divisor the guards do not keep away from zero is
  modelled by \<open>jsdiv\<close>, where \<open>None\<close> stands for a non-finite double
  (\<open>Infinity\<close>, \<open>-Infinity\<close> or \<open>NaN\<close>).

  Rounding: the sample positions of the loop are compared with the load position and
  cut to two decimals, so the last bit of the double decides what is stored. Their
  arithmetic, \<^verbatim>\<open>(L_m / 100) * i\<close>, is therefore modelled with the rounding of
  binary64 after each operation (\<open>binary64\<close>). The other arithmetic is exact: the
  model's reactions, peak values, moments, shears and deflections are the real numbers
  of the source's formulas, which the doubles of the source approximate to a few units
  in the last place.
\<close>

subsection \<open>Data model (types.ts and the component's Inputs interface)\<close>

datatype BeamType = SimplySupported | Cantilever

datatype LoadType = PointLoad | Udl

datatype BeamCrossSection = Rectangular | IBeam | Custom

record Inputs =
  beamLength :: real
  load :: real
  loadPosition :: real
  beamType :: BeamType
  loadType :: LoadType
  crossSection :: BeamCrossSection
  standardSize :: string
  sectionWidth :: real
  sectionHeight :: real
  flangeThickness :: real
  webThickness :: real
  modulusOfElasticityPreset :: string
  modulusOfElasticity :: real
  momentOfInertia_cm4 :: real
  distanceToFiber_mm :: real

record Reactions =
  r1 :: real
  r2 :: real

text \<open>
  A diagram point \<^verbatim>\<open>{x, moment, shear, deflection}\<close>. The field \<^verbatim>\<open>x\<close> is
  called \<open>pt_x\<close> here, so that \<open>x\<close> stays free as a variable name.
\<close>

record DiagramPoint =
  pt_x :: real
  moment :: real
  shear :: real
  deflection :: "real option"

record BeamResult =
  maxMoment :: real
  maxShear :: real
  maxStress :: "real option"
  maxDeflection :: "real option"
  momentOfInertia :: real
  reactions :: Reactions
  diagramData :: "DiagramPoint list"

text \<open>
  What one call of \<^verbatim>\<open>calculate\<close> does to the component's \<^verbatim>\<open>result\<close> state:
  \<^verbatim>\<open>setResult(null); return\<close>, a bare \<^verbatim>\<open>return\<close>, or
  \<^verbatim>\<open>setResult(newResult)\<close>.
\<close>

datatype outcome =
    SetResultNull
  | ReturnOnly
  | is_SetResult: SetResult (the_result: BeamResult)

subsection \<open>Number helpers\<close>

text \<open>
  The double nearest to a real number: 53 significant bits, round to nearest, ties to
  the even significand. The exponent is not bounded (no overflow to \<open>Infinity\<close>, no
  gradual underflow).
\<close>

definition round_half_even :: "real \<Rightarrow> int" where
  "round_half_even t =
     (let n = \<lfloor>t\<rfloor>
      in if t - of_int n < 1 / 2 then n
         else if 1 / 2 < t - of_int n then n + 1
         else if even n then n else n + 1)"

definition binary64 :: "real \<Rightarrow> real" where
  "binary64 v =
     (if v = 0 then 0
      else
        let q = 2 powr of_int (\<lfloor>log 2 \<bar>v\<bar>\<rfloor> - 52)
        in sgn v * (of_int (round_half_even (\<bar>v\<bar> / q)) * q))"

text \<open>
  \<^verbatim>\<open>Number(v.toFixed(2))\<close>, on the exact value of the double \<open>v\<close>.
  \<^verbatim>\<open>toFixed\<close> takes the sign off, picks the integer \<open>n\<close> with \<open>n / 100\<close>
  closest to \<open>\<bar>v\<bar>\<close> (the larger one on a tie) and prints it with two decimals; from
  \<open>10^21\<close> on it prints the number itself. \<^verbatim>\<open>Number\<close> reads the decimal back; the
  model keeps the decimal \<open>n / 100\<close> itself.
\<close>

definition toFixed2 :: "real \<Rightarrow> real" where
  "toFixed2 v =
     (if 10 ^ 21 \<le> \<bar>v\<bar> then v
      else sgn v * (of_int \<lfloor>\<bar>v\<bar> * 100 + 1 / 2\<rfloor> / 100))"

text \<open>Division of doubles: a zero divisor gives a non-finite value.\<close>

definition jsdiv :: "real \<Rightarrow> real \<Rightarrow> real option" where
  "jsdiv p q = (if q = 0 then None else Some (p / q))"

text \<open>
  \<^verbatim>\<open>Math.max(...vs)\<close>: \<open>-Infinity\<close> for no argument, and non-finite as soon as
  one argument is.
\<close>

definition max_opt :: "real option \<Rightarrow> real option \<Rightarrow> real option" where
  "max_opt u v = (case (u, v) of (Some p, Some q) \<Rightarrow> Some (max p q) | _ \<Rightarrow> None)"

fun Math_max :: "real option list \<Rightarrow> real option" where
  "Math_max [] = None"
| "Math_max (v # vs) = fold max_opt vs v"

subsection \<open>Cross-section\<close>

text \<open>
  The block of \<^verbatim>\<open>calculate\<close> that sets \<^verbatim>\<open>momentOfInertia\<close> (in m^4) and
  \<^verbatim>\<open>c_m\<close> (in m). \<open>None\<close> is the path \<^verbatim>\<open>setResult(null); return\<close>. The
  I-beam branch checks width and height only.
\<close>

definition section_properties :: "Inputs \<Rightarrow> (real \<times> real) option" where
  "section_properties inputs =
     (if crossSection inputs = Custom then
        (if momentOfInertia_cm4 inputs \<le> 0 \<or> distanceToFiber_mm inputs \<le> 0 then None
         else Some (momentOfInertia_cm4 inputs / 10 ^ 8, distanceToFiber_mm inputs / 1000))
      else
        (if sectionWidth inputs \<le> 0 \<or> sectionHeight inputs \<le> 0 then None
         else
           let h_m = sectionHeight inputs / 1000;
               b_m = sectionWidth inputs / 1000;
               c_m = h_m / 2
           in if crossSection inputs = Rectangular then Some ((b_m * h_m ^ 3) / 12, c_m)
              else
                let ft_m = flangeThickness inputs / 1000;
                    wt_m = webThickness inputs / 1000;
                    I_flanges = (b_m * h_m ^ 3) / 12;
                    I_void = ((b_m - wt_m) * (h_m - 2 * ft_m) ^ 3) / 12
                in Some (I_flanges - I_void, c_m)))"

subsection \<open>Reactions and peak values\<close>

record LoadCase =
  maxMoment_Nm :: real
  maxShear_N :: real
  reactions_N :: Reactions

text \<open>
  The four branches on \<^verbatim>\<open>beamType\<close> and \<^verbatim>\<open>loadType\<close>. \<open>None\<close> is the bare
  \<^verbatim>\<open>return\<close> of the two point-load branches, which leaves \<^verbatim>\<open>result\<close> as it was.
\<close>

definition load_case :: "Inputs \<Rightarrow> LoadCase option" where
  "load_case inputs =
     (let L_m = beamLength inputs;
          P_N = load inputs * 1000;
          w_Nm = load inputs * 1000;
          a_m = loadPosition inputs;
          b_len = L_m - a_m
      in if beamType inputs = SimplySupported then
           (if loadType inputs = PointLoad then
              (if a_m > L_m \<or> a_m < 0 then None
               else
                 let rs = \<lparr>r1 = (P_N * b_len) / L_m, r2 = (P_N * a_m) / L_m\<rparr>
                 in Some \<lparr>maxMoment_Nm = (P_N * a_m * b_len) / L_m,
                          maxShear_N = max \<bar>r1 rs\<bar> \<bar>r2 rs\<bar>,
                          reactions_N = rs\<rparr>)
            else
              let rs = \<lparr>r1 = (w_Nm * L_m) / 2, r2 = (w_Nm * L_m) / 2\<rparr>
              in Some \<lparr>maxMoment_Nm = (w_Nm * L_m * L_m) / 8,
                       maxShear_N = r1 rs,
                       reactions_N = rs\<rparr>)
         else
           (if loadType inputs = PointLoad then
              (if a_m > L_m \<or> a_m < 0 then None
               else
                 let rs = \<lparr>r1 = P_N, r2 = - P_N * a_m\<rparr>
                 in Some \<lparr>maxMoment_Nm = r2 rs,
                          maxShear_N = P_N,
                          reactions_N = rs\<rparr>)
            else
              let rs = \<lparr>r1 = w_Nm * L_m, r2 = - (w_Nm * L_m * L_m) / 2\<rparr>
              in Some \<lparr>maxMoment_Nm = r2 rs,
                       maxShear_N = r1 rs,
                       reactions_N = rs\<rparr>))"

subsection \<open>The sampling loop\<close>

text \<open>
  The three values the loop body computes at a position \<open>x\<close>, before they are
  converted and rounded: \<^verbatim>\<open>moment_Nm\<close>, \<^verbatim>\<open>shear_N\<close> and \<^verbatim>\<open>deflection_m\<close>.
\<close>

definition moment_Nm :: "Inputs \<Rightarrow> Reactions \<Rightarrow> real \<Rightarrow> real" where
  "moment_Nm inputs rs x =
     (let P_N = load inputs * 1000;
          w_Nm = load inputs * 1000;
          a_m = loadPosition inputs
      in if beamType inputs = SimplySupported then
           (if loadType inputs = PointLoad then
              (if x \<le> a_m then r1 rs * x else r1 rs * x - P_N * (x - a_m))
            else r1 rs * x - (w_Nm * x * x) / 2)
         else
           (if loadType inputs = PointLoad then
              (if x < a_m then r2 rs + r1 rs * x else 0)
            else r2 rs + r1 rs * x - (w_Nm * x * x) / 2))"

definition shear_N :: "Inputs \<Rightarrow> Reactions \<Rightarrow> real \<Rightarrow> real" where
  "shear_N inputs rs x =
     (let P_N = load inputs * 1000;
          w_Nm = load inputs * 1000;
          a_m = loadPosition inputs
      in if beamType inputs = SimplySupported then
           (if loadType inputs = PointLoad then
              (if x < a_m then r1 rs else r1 rs - P_N)
            else r1 rs - w_Nm * x)
         else
           (if loadType inputs = PointLoad then
              (if x < a_m then r1 rs else 0)
            else r1 rs - w_Nm * x))"

definition deflection_m :: "Inputs \<Rightarrow> real \<Rightarrow> real \<Rightarrow> real option" where
  "deflection_m inputs I x =
     (let E = modulusOfElasticity inputs * 10 ^ 9;
          L_m = beamLength inputs;
          P_N = load inputs * 1000;
          w_Nm = load inputs * 1000;
          a_m = loadPosition inputs;
          b_len = L_m - a_m
      in if beamType inputs = SimplySupported then
           (if loadType inputs = PointLoad then
              (if x \<le> a_m then
                 map_option (\<lambda>q. q * (L_m * L_m - b_len * b_len - x * x))
                   (jsdiv (P_N * b_len * x) (6 * E * I * L_m))
               else
                 map_option (\<lambda>q. q * (L_m * L_m - a_m * a_m - (L_m - x) * (L_m - x)))
                   (jsdiv (P_N * a_m * (L_m - x)) (6 * E * I * L_m)))
            else
              map_option (\<lambda>q. q * (L_m * L_m * L_m - 2 * L_m * x * x + x * x * x))
                (jsdiv (w_Nm * x) (24 * E * I)))
         else
           (if loadType inputs = PointLoad then
              (if x \<le> a_m then
                 map_option (\<lambda>q. q * (3 * a_m - x)) (jsdiv (P_N * x * x) (6 * E * I))
               else
                 map_option (\<lambda>q. q * (3 * x - a_m)) (jsdiv (P_N * a_m * a_m) (6 * E * I)))
            else
              map_option (\<lambda>q. q * (x * x + 6 * L_m * L_m - 4 * L_m * x))
                (jsdiv (w_Nm * x * x) (24 * E * I))))"

text \<open>
  The position of sample \<open>i\<close>, \<^verbatim>\<open>const x = (L_m / 100) * i\<close>: a division and
  a multiplication of doubles, each rounded.
\<close>

definition sample_x :: "Inputs \<Rightarrow> nat \<Rightarrow> real" where
  "sample_x inputs i = binary64 (binary64 (beamLength inputs / 100) * real i)"

text \<open>One pass of the loop body: the point pushed onto \<^verbatim>\<open>diagramData\<close>.\<close>

definition diagram_point :: "Inputs \<Rightarrow> real \<Rightarrow> Reactions \<Rightarrow> nat \<Rightarrow> DiagramPoint" where
  "diagram_point inputs I rs i =
     (let x = sample_x inputs i
      in \<lparr>pt_x = toFixed2 x,
          moment = toFixed2 (moment_Nm inputs rs x / 1000),
          shear = toFixed2 (shear_N inputs rs x / 1000),
          deflection = map_option (\<lambda>d. d * 1000) (deflection_m inputs I x)\<rparr>)"

subsection \<open>The result\<close>

text \<open>
  Everything after the four branches: the loop \<^verbatim>\<open>for (i = 0; i <= 100; i++)\<close>,
  the peak values and \<^verbatim>\<open>newResult\<close>.
\<close>

definition newResult :: "Inputs \<Rightarrow> real \<Rightarrow> real \<Rightarrow> LoadCase \<Rightarrow> BeamResult" where
  "newResult inputs I c_m lc =
     (let diagram = map (diagram_point inputs I (reactions_N lc)) [0..<101]
      in \<lparr>maxMoment = maxMoment_Nm lc / 1000,
          maxShear = maxShear_N lc / 1000,
          maxStress = map_option (\<lambda>q. q / 10 ^ 6) (jsdiv (\<bar>maxMoment_Nm lc\<bar> * c_m) I),
          maxDeflection = Math_max (map (\<lambda>d. map_option abs (deflection d)) diagram),
          momentOfInertia = I,
          reactions = \<lparr>r1 = r1 (reactions_N lc) / 1000, r2 = r2 (reactions_N lc) / 1000\<rparr>,
          diagramData = diagram\<rparr>)"

text \<open>
  \<^verbatim>\<open>calculate\<close>, in the order of the source: the guard on length, load and modulus,
  the cross-section, the load case, the result. The call of \<^verbatim>\<open>addHistoryEntry\<close>
  that follows \<^verbatim>\<open>setResult(newResult)\<close> only prints the values computed here into
  the history list and is not part of the model.
\<close>

definition calculate :: "Inputs \<Rightarrow> outcome" where
  "calculate inputs =
     (if beamLength inputs \<le> 0 \<or> load inputs \<le> 0 \<or> modulusOfElasticity inputs \<le> 0
      then SetResultNull
      else
        (case section_properties inputs of
           None \<Rightarrow> SetResultNull
         | Some (I, c_m) \<Rightarrow>
             (case load_case inputs of
                None \<Rightarrow> ReturnOnly
              | Some lc \<Rightarrow> SetResult (newResult inputs I c_m lc))))"

text \<open>The \<^verbatim>\<open>result\<close> state of the component after a call of \<^verbatim>\<open>calculate\<close>.\<close>

definition result_after :: "Inputs \<Rightarrow> BeamResult option \<Rightarrow> BeamResult option" where
  "result_after inputs result =
     (case calculate inputs of
        SetResultNull \<Rightarrow> None
      | ReturnOnly \<Rightarrow> result
      | SetResult r \<Rightarrow> Some r)"

text \<open>\<^verbatim>\<open>initialInputs\<close>, the inputs the component starts with.\<close>

definition initialInputs :: Inputs where
  "initialInputs =
     \<lparr>beamLength = 10, load = 100, loadPosition = 5,
      beamType = SimplySupported, loadType = PointLoad,
      crossSection = Rectangular, standardSize = ''Custom'',
      sectionWidth = 150, sectionHeight = 300,
      flangeThickness = 15, webThickness = 10,
      modulusOfElasticityPreset = ''Steel'', modulusOfElasticity = 200,
      momentOfInertia_cm4 = 8000, distanceToFiber_mm = 150\<rparr>"

text \<open>
  The path condition of \<^verbatim>\<open>setResult(newResult)\<close>: every guard of
  \<^verbatim>\<open>calculate\<close> is passed. (\<open>is_SetResult_calculate\<close> below proves that it is
  exactly that.)
\<close>
definition accepted :: "Inputs \<Rightarrow> bool" where
  "accepted inputs \<longleftrightarrow>
     0 < beamLength inputs \<and> 0 < load inputs \<and> 0 < modulusOfElasticity inputs \<and>
     (if crossSection inputs = Custom
      then 0 < momentOfInertia_cm4 inputs \<and> 0 < distanceToFiber_mm inputs
      else 0 < sectionWidth inputs \<and> 0 < sectionHeight inputs) \<and>
     (loadType inputs = Udl \<or>
      (0 \<le> loadPosition inputs \<and> loadPosition inputs \<le> beamLength inputs))"

section \<open>Rounding to two decimals\<close>

lemma toFixed2_zero: "toFixed2 0 = 0"
  by (simp add: toFixed2_def)

lemma toFixed2_nonneg: "0 \<le> v \<Longrightarrow> v < 10 ^ 21 \<Longrightarrow> toFixed2 v = of_int \<lfloor>v * 100 + 1 / 2\<rfloor> / 100"
  by (cases "v = 0") (simp_all add: toFixed2_def)

lemma round_below_bound:
  fixes v :: real
  assumes "\<bar>v\<bar> < 10 ^ 21"
  shows "of_int \<lfloor>\<bar>v\<bar> * 100 + 1 / 2\<rfloor> / 100 \<le> (10 ^ 21 :: real)"
proof -
  have "\<bar>v\<bar> * 100 + 1 / 2 < 10 ^ 23 + 1" using assms by simp
  then have "\<lfloor>\<bar>v\<bar> * 100 + 1 / 2\<rfloor> < (10 ^ 23 + 1 :: int)"
    by (simp add: floor_less_iff)
  then have "\<lfloor>\<bar>v\<bar> * 100 + 1 / 2\<rfloor> \<le> (10 ^ 23 :: int)" by simp
  then have "(of_int \<lfloor>\<bar>v\<bar> * 100 + 1 / 2\<rfloor> :: real) \<le> of_int (10 ^ 23)"
    by (simp only: of_int_le_iff)
  then show ?thesis by simp
qed

lemma toFixed2_sgn: "0 \<le> v \<Longrightarrow> 0 \<le> toFixed2 v" "v \<le> 0 \<Longrightarrow> toFixed2 v \<le> 0"
  by (auto simp: toFixed2_def sgn_real_def)

lemma toFixed2_mono_nonneg:
  assumes "0 \<le> v" "v \<le> w"
  shows "toFixed2 v \<le> toFixed2 w"
proof (cases "w < 10 ^ 21")
  case True
  then have "v < 10 ^ 21" using assms by simp
  have "\<lfloor>v * 100 + 1 / 2\<rfloor> \<le> \<lfloor>w * 100 + 1 / 2\<rfloor>"
    using assms by (intro floor_mono) simp
  then have "(of_int \<lfloor>v * 100 + 1 / 2\<rfloor> :: real) \<le> of_int \<lfloor>w * 100 + 1 / 2\<rfloor>"
    by (simp only: of_int_le_iff)
  then show ?thesis
    using assms True \<open>v < 10 ^ 21\<close> by (simp add: toFixed2_nonneg divide_right_mono)
next
  case False
  then have w: "toFixed2 w = w" using assms by (simp add: toFixed2_def)
  show ?thesis
  proof (cases "v < 10 ^ 21")
    case True
    have "toFixed2 v \<le> 10 ^ 21"
      using round_below_bound[of v] assms True by (simp add: toFixed2_nonneg)
    then show ?thesis using w False by simp
  next
    case False
    then show ?thesis using w assms by (simp add: toFixed2_def)
  qed
qed

lemma toFixed2_minus: "toFixed2 (- v) = - toFixed2 v"
  by (simp add: toFixed2_def sgn_real_def)

lemma toFixed2_mono:
  assumes "v \<le> w"
  shows "toFixed2 v \<le> toFixed2 w"
proof (cases "0 \<le> v")
  case True
  then show ?thesis using assms by (rule toFixed2_mono_nonneg)
next
  case False
  show ?thesis
  proof (cases "0 \<le> w")
    case True
    have "toFixed2 v \<le> 0" using False by (simp add: toFixed2_sgn)
    also have "0 \<le> toFixed2 w" using True by (simp add: toFixed2_sgn)
    finally show ?thesis .
  next
    case w: False
    have "toFixed2 (- w) \<le> toFixed2 (- v)"
      using w assms by (intro toFixed2_mono_nonneg) simp_all
    then show ?thesis by (simp add: toFixed2_minus)
  qed
qed

lemma toFixed2_step:
  assumes "0 \<le> v" "v + 1 / 100 \<le> w"
  shows "toFixed2 v < toFixed2 w"
proof (cases "w < 10 ^ 21")
  case True
  then have v: "v < 10 ^ 21" and w0: "0 \<le> w" using assms by simp_all
  have "v * 100 + 1 / 2 + 1 \<le> w * 100 + 1 / 2" using assms by simp
  then have "\<lfloor>v * 100 + 1 / 2 + 1\<rfloor> \<le> \<lfloor>w * 100 + 1 / 2\<rfloor>" by (rule floor_mono)
  moreover have "\<lfloor>v * 100 + 1 / 2 + 1\<rfloor> = \<lfloor>v * 100 + 1 / 2\<rfloor> + 1"
    using floor_add_int[of "v * 100 + 1 / 2" 1] by (simp only: of_int_1)
  ultimately have "\<lfloor>v * 100 + 1 / 2\<rfloor> < \<lfloor>w * 100 + 1 / 2\<rfloor>" by linarith
  then have "(of_int \<lfloor>v * 100 + 1 / 2\<rfloor> :: real) < of_int \<lfloor>w * 100 + 1 / 2\<rfloor>"
    by (simp only: of_int_less_iff)
  then show ?thesis using assms v w0 True by (simp add: toFixed2_nonneg divide_strict_right_mono)
next
  case False
  then have w: "toFixed2 w = w" using assms by (simp add: toFixed2_def)
  show ?thesis
  proof (cases "v < 10 ^ 21")
    case True
    have "of_int \<lfloor>v * 100 + 1 / 2\<rfloor> \<le> v * 100 + 1 / 2" by (rule of_int_floor_le)
    then have "toFixed2 v \<le> v + 1 / 200" using assms True by (simp add: toFixed2_nonneg)
    then show ?thesis using w assms by simp
  next
    case False
    then show ?thesis using w assms by (simp add: toFixed2_def)
  qed
qed

section \<open>Rounding to binary64\<close>

lemma round_half_even_error: "\<bar>of_int (round_half_even t) - t\<bar> \<le> 1 / 2"
  unfolding round_half_even_def Let_def by (auto split: if_splits)

lemma round_half_even_bounds:
  "\<lfloor>t\<rfloor> \<le> round_half_even t" "round_half_even t \<le> \<lfloor>t\<rfloor> + 1"
  unfolding round_half_even_def Let_def by auto

lemma round_half_even_of_int: "round_half_even (of_int n) = n"
  unfolding round_half_even_def Let_def by simp

lemma round_half_even_mono:
  assumes "s \<le> t"
  shows "round_half_even s \<le> round_half_even t"
proof (cases "\<lfloor>s\<rfloor> = \<lfloor>t\<rfloor>")
  case True
  with assms show ?thesis
    unfolding round_half_even_def Let_def by (auto split: if_splits)
next
  case False
  with assms have "\<lfloor>s\<rfloor> < \<lfloor>t\<rfloor>" by (simp add: floor_mono le_neq_trans)
  then have "\<lfloor>s\<rfloor> + 1 \<le> \<lfloor>t\<rfloor>" by simp
  with round_half_even_bounds(2) [of s] round_half_even_bounds(1) [of t]
  show ?thesis by linarith
qed

lemma binary64_zero: "binary64 0 = 0"
  by (simp add: binary64_def)

lemma binary64_minus: "binary64 (- v) = - binary64 v"
  by (simp add: binary64_def Let_def)

lemma exponent_bounds:
  assumes "0 < a"
  shows "2 powr of_int \<lfloor>log 2 a\<rfloor> \<le> a" "a < 2 powr of_int (\<lfloor>log 2 a\<rfloor> + 1)"
proof -
  have "of_int \<lfloor>log 2 a\<rfloor> \<le> log 2 a" by simp
  then have "2 powr of_int \<lfloor>log 2 a\<rfloor> \<le> 2 powr log 2 a" by simp
  then show "2 powr of_int \<lfloor>log 2 a\<rfloor> \<le> a" using assms by simp
  have "log 2 a < of_int (\<lfloor>log 2 a\<rfloor> + 1)" by linarith
  then have "2 powr log 2 a < 2 powr of_int (\<lfloor>log 2 a\<rfloor> + 1)" by simp
  then show "a < 2 powr of_int (\<lfloor>log 2 a\<rfloor> + 1)" using assms by simp
qed

lemma quantum:
  fixes e :: int
  shows "0 < (2::real) powr of_int (e - 52)"
    and "2 ^ 52 * (2::real) powr of_int (e - 52) = 2 powr of_int e"
    and "2 ^ 53 * (2::real) powr of_int (e - 52) = 2 powr of_int (e + 1)"
proof -
  show "0 < (2::real) powr of_int (e - 52)" by simp
  have "(2::real) powr of_int e = 2 powr (52 + of_int (e - 52))" by simp
  also have "\<dots> = 2 powr 52 * 2 powr of_int (e - 52)" by (rule powr_add)
  also have "(2::real) powr 52 = 2 ^ 52" by simp
  finally show "2 ^ 52 * (2::real) powr of_int (e - 52) = 2 powr of_int e" by simp
  have "(2::real) powr of_int (e + 1) = 2 powr (53 + of_int (e - 52))"
    by (simp add: add.commute)
  also have "\<dots> = 2 powr 53 * 2 powr of_int (e - 52)" by (rule powr_add)
  also have "(2::real) powr 53 = 2 ^ 53" by simp
  finally show "2 ^ 53 * (2::real) powr of_int (e - 52) = 2 powr of_int (e + 1)" by simp
qed

lemma binary64_pos:
  assumes "0 < v"
  shows "binary64 v =
    of_int (round_half_even (v / 2 powr of_int (\<lfloor>log 2 v\<rfloor> - 52))) * 2 powr of_int (\<lfloor>log 2 v\<rfloor> - 52)"
  using assms by (simp add: binary64_def Let_def)

lemma binary64_error_pos:
  assumes "0 < v"
  shows "\<bar>binary64 v - v\<bar> \<le> v / 2 ^ 53"
proof -
  define e where "e = \<lfloor>log 2 v\<rfloor>"
  define q where "q = (2::real) powr of_int (e - 52)"
  have q: "0 < q" and q52: "2 ^ 52 * q = 2 powr of_int e"
    unfolding q_def by (rule quantum)+
  have b: "binary64 v = of_int (round_half_even (v / q)) * q"
    using assms unfolding q_def e_def by (rule binary64_pos)
  have "binary64 v - v = (of_int (round_half_even (v / q)) - v / q) * q"
    using q by (simp add: b algebra_simps)
  then have "\<bar>binary64 v - v\<bar> = \<bar>of_int (round_half_even (v / q)) - v / q\<bar> * q"
    using q by (simp add: abs_mult)
  also have "\<dots> \<le> (1 / 2) * q"
    using round_half_even_error [of "v / q"] q by (intro mult_right_mono) simp_all
  also have "\<dots> = 2 powr of_int e / 2 ^ 53" using q52 [symmetric] by simp
  also have "\<dots> \<le> v / 2 ^ 53"
    using exponent_bounds(1) [OF assms] unfolding e_def by (simp add: divide_right_mono)
  finally show ?thesis .
qed

lemma binary64_error: "\<bar>binary64 v - v\<bar> \<le> \<bar>v\<bar> / 2 ^ 53"
proof -
  consider "v = 0" | "0 < v" | "v < 0" by linarith
  then show ?thesis
  proof cases
    case 1
    then show ?thesis by (simp add: binary64_zero)
  next
    case 2
    then show ?thesis using binary64_error_pos [of v] by simp
  next
    case 3
    then have "\<bar>binary64 (- v) - (- v)\<bar> \<le> (- v) / 2 ^ 53" by (intro binary64_error_pos) simp
    then show ?thesis using 3 by (simp add: binary64_minus)
  qed
qed

lemma binary64_range:
  assumes "0 < v"
  shows "2 powr of_int \<lfloor>log 2 v\<rfloor> \<le> binary64 v"
    and "binary64 v \<le> 2 powr of_int (\<lfloor>log 2 v\<rfloor> + 1)"
proof -
  define e where "e = \<lfloor>log 2 v\<rfloor>"
  define q where "q = (2::real) powr of_int (e - 52)"
  have q: "0 < q" and q52: "2 ^ 52 * q = 2 powr of_int e"
    and q53: "2 ^ 53 * q = 2 powr of_int (e + 1)"
    unfolding q_def by (rule quantum)+
  have b: "binary64 v = of_int (round_half_even (v / q)) * q"
    using assms unfolding q_def e_def by (rule binary64_pos)
  have lo: "2 powr of_int e \<le> v" and hi: "v < 2 powr of_int (e + 1)"
    using exponent_bounds [OF assms] unfolding e_def by simp_all
  from lo q q52 have "of_int (2 ^ 52) \<le> v / q" by (simp add: pos_le_divide_eq)
  then have "round_half_even (of_int (2 ^ 52)) \<le> round_half_even (v / q)"
    by (rule round_half_even_mono)
  then have "(2 ^ 52 :: int) \<le> round_half_even (v / q)"
    by (simp only: round_half_even_of_int)
  then have "(of_int (2 ^ 52) :: real) \<le> of_int (round_half_even (v / q))"
    by (simp only: of_int_le_iff)
  then have "2 ^ 52 * q \<le> of_int (round_half_even (v / q)) * q"
    using q by (intro mult_right_mono) simp_all
  then show "2 powr of_int \<lfloor>log 2 v\<rfloor> \<le> binary64 v"
    unfolding b q52 e_def .
  from hi q q53 have "v / q \<le> of_int (2 ^ 53)" by (simp add: pos_divide_le_eq)
  then have "round_half_even (v / q) \<le> round_half_even (of_int (2 ^ 53))"
    by (rule round_half_even_mono)
  then have "round_half_even (v / q) \<le> (2 ^ 53 :: int)"
    by (simp only: round_half_even_of_int)
  then have "(of_int (round_half_even (v / q)) :: real) \<le> of_int (2 ^ 53)"
    by (simp only: of_int_le_iff)
  then have "of_int (round_half_even (v / q)) * q \<le> 2 ^ 53 * q"
    using q by (intro mult_right_mono) simp_all
  then show "binary64 v \<le> 2 powr of_int (\<lfloor>log 2 v\<rfloor> + 1)"
    unfolding b q53 e_def .
qed

lemma binary64_mono_pos:
  assumes "0 < v" "v \<le> w"
  shows "binary64 v \<le> binary64 w"
proof -
  from assms have w: "0 < w" by simp
  from assms have "log 2 v \<le> log 2 w" by simp
  then have le: "\<lfloor>log 2 v\<rfloor> \<le> \<lfloor>log 2 w\<rfloor>" by (rule floor_mono)
  show ?thesis
  proof (cases "\<lfloor>log 2 v\<rfloor> = \<lfloor>log 2 w\<rfloor>")
    case True
    define q where "q = (2::real) powr of_int (\<lfloor>log 2 w\<rfloor> - 52)"
    have q: "0 < q" unfolding q_def by simp
    from assms q have "v / q \<le> w / q" by (simp add: divide_right_mono)
    then have "round_half_even (v / q) \<le> round_half_even (w / q)"
      by (rule round_half_even_mono)
    then have "(of_int (round_half_even (v / q)) :: real) \<le> of_int (round_half_even (w / q))"
      by (simp only: of_int_le_iff)
    then have "of_int (round_half_even (v / q)) * q \<le> of_int (round_half_even (w / q)) * q"
      using q by (intro mult_right_mono) simp_all
    then show ?thesis
      unfolding binary64_pos [OF assms(1)] binary64_pos [OF w] True q_def .
  next
    case False
    with le have "\<lfloor>log 2 v\<rfloor> + 1 \<le> \<lfloor>log 2 w\<rfloor>" by simp
    then have "(2::real) powr of_int (\<lfloor>log 2 v\<rfloor> + 1) \<le> 2 powr of_int \<lfloor>log 2 w\<rfloor>"
      by simp
    with binary64_range(2) [OF assms(1)] binary64_range(1) [OF w]
    show ?thesis by linarith
  qed
qed

lemma binary64_nonneg:
  assumes "0 \<le> v"
  shows "0 \<le> binary64 v"
proof -
  have "v / 2 ^ 53 \<le> v" using assms by (simp add: field_simps)
  moreover have "\<bar>binary64 v - v\<bar> \<le> v / 2 ^ 53" using binary64_error [of v] assms by simp
  ultimately show ?thesis by linarith
qed

lemma binary64_mono:
  assumes "v \<le> w"
  shows "binary64 v \<le> binary64 w"
proof -
  consider "0 < v" | "v \<le> 0" "0 \<le> w" | "w < 0" using assms by linarith
  then show ?thesis
  proof cases
    case 1
    then show ?thesis using assms by (rule binary64_mono_pos)
  next
    case 2
    from 2(1) have "0 \<le> binary64 (- v)" by (intro binary64_nonneg) simp
    then have "binary64 v \<le> 0" by (simp add: binary64_minus)
    also have "0 \<le> binary64 w" using 2(2) by (rule binary64_nonneg)
    finally show ?thesis .
  next
    case 3
    then have "binary64 (- w) \<le> binary64 (- v)" using assms by (intro binary64_mono_pos) simp_all
    then show ?thesis by (simp add: binary64_minus)
  qed
qed

section \<open>The guards and the shape of the result\<close>

lemma section_properties_None:
  "section_properties inputs = None \<longleftrightarrow>
     (if crossSection inputs = Custom
      then momentOfInertia_cm4 inputs \<le> 0 \<or> distanceToFiber_mm inputs \<le> 0
      else sectionWidth inputs \<le> 0 \<or> sectionHeight inputs \<le> 0)"
  by (cases "crossSection inputs") (simp_all add: section_properties_def Let_def)

lemma load_case_None:
  "load_case inputs = None \<longleftrightarrow>
     loadType inputs = PointLoad \<and>
     (loadPosition inputs < 0 \<or> beamLength inputs < loadPosition inputs)"
  by (cases "loadType inputs") (auto simp: load_case_def Let_def)

lemma accepted_calculate:
  assumes "accepted inputs"
  obtains I c_m lc where "section_properties inputs = Some (I, c_m)"
    and "load_case inputs = Some lc"
    and "calculate inputs = SetResult (newResult inputs I c_m lc)"
proof -
  from assms have "section_properties inputs \<noteq> None"
    by (auto simp: accepted_def section_properties_None split: if_splits)
  then obtain I c_m where s: "section_properties inputs = Some (I, c_m)" by auto
  from assms have "load_case inputs \<noteq> None"
    by (cases "loadType inputs") (auto simp: accepted_def load_case_None)
  then obtain lc where l: "load_case inputs = Some lc" by auto
  from assms s l have "calculate inputs = SetResult (newResult inputs I c_m lc)"
    by (simp add: calculate_def accepted_def)
  with s l show thesis by (rule that)
qed

lemma is_SetResult_calculate: "is_SetResult (calculate inputs) \<longleftrightarrow> accepted inputs"
proof
  assume "accepted inputs"
  then show "is_SetResult (calculate inputs)" by (rule accepted_calculate) simp
next
  assume a: "is_SetResult (calculate inputs)"
  show "accepted inputs"
  proof (rule ccontr)
    assume n: "\<not> accepted inputs"
    show False
    proof (cases "beamLength inputs \<le> 0 \<or> load inputs \<le> 0 \<or> modulusOfElasticity inputs \<le> 0")
      case True
      with a show False by (simp add: calculate_def)
    next
      case g: False
      show False
      proof (cases "section_properties inputs")
        case None
        with a g show False by (simp add: calculate_def)
      next
        case (Some p)
        then have "section_properties inputs \<noteq> None" by simp
        with n g have "load_case inputs = None"
          unfolding load_case_None section_properties_None accepted_def
          by (cases "loadType inputs") (auto split: if_splits)
        with a g Some show False by (simp add: calculate_def split: prod.splits)
      qed
    qed
  qed
qed

lemma length_diagram [simp]: "length (diagramData (newResult inputs I c_m lc)) = 101"
  by (simp add: newResult_def)

lemma nth_diagram:
  "i \<le> 100 \<Longrightarrow> diagramData (newResult inputs I c_m lc) ! i = diagram_point inputs I (reactions_N lc) i"
  by (simp add: newResult_def Let_def)

lemma newResult_fields:
  "maxMoment (newResult inputs I c_m lc) = maxMoment_Nm lc / 1000"
  "maxShear (newResult inputs I c_m lc) = maxShear_N lc / 1000"
  "maxStress (newResult inputs I c_m lc) =
     map_option (\<lambda>q. q / 10 ^ 6) (jsdiv (\<bar>maxMoment_Nm lc\<bar> * c_m) I)"
  "momentOfInertia (newResult inputs I c_m lc) = I"
  "reactions (newResult inputs I c_m lc) =
     \<lparr>r1 = r1 (reactions_N lc) / 1000, r2 = r2 (reactions_N lc) / 1000\<rparr>"
  unfolding newResult_def Let_def by simp_all

lemma calculate_SetResultNull:
  "beamLength inputs \<le> 0 \<or> load inputs \<le> 0 \<or> modulusOfElasticity inputs \<le> 0 \<or>
   section_properties inputs = None \<Longrightarrow> calculate inputs = SetResultNull"
  by (auto simp: calculate_def)

section \<open>Validation\<close>

text \<open>
  Claim C1, as the code has it. A call of \<^verbatim>\<open>calculate\<close> on inputs with a
  non-positive length, load or modulus of elasticity, on a custom section whose moment
  of inertia or fibre distance is not positive, or on a rectangular or I-beam section
  whose width or height is not positive, ends in \<^verbatim>\<open>setResult(null)\<close>: the
  result state is cleared, whatever it was, and no load case is evaluated. A point load
  outside \<open>[0, L]\<close> never ends in \<^verbatim>\<open>setResult(newResult)\<close>.
\<close>

theorem calculate_rejects:
  "(beamLength inputs \<le> 0 \<or> load inputs \<le> 0 \<or> modulusOfElasticity inputs \<le> 0 \<or>
    (crossSection inputs = Custom \<and>
       (momentOfInertia_cm4 inputs \<le> 0 \<or> distanceToFiber_mm inputs \<le> 0)) \<or>
    (crossSection inputs \<noteq> Custom \<and>
       (sectionWidth inputs \<le> 0 \<or> sectionHeight inputs \<le> 0))
    \<longrightarrow> calculate inputs = SetResultNull \<and> result_after inputs result = None) \<and>
   (loadType inputs = PointLoad \<and>
      (loadPosition inputs < 0 \<or> beamLength inputs < loadPosition inputs)
    \<longrightarrow> \<not> is_SetResult (calculate inputs))"
proof (intro conjI impI)
  assume v: "beamLength inputs \<le> 0 \<or> load inputs \<le> 0 \<or> modulusOfElasticity inputs \<le> 0 \<or>
    (crossSection inputs = Custom \<and>
       (momentOfInertia_cm4 inputs \<le> 0 \<or> distanceToFiber_mm inputs \<le> 0)) \<or>
    (crossSection inputs \<noteq> Custom \<and>
       (sectionWidth inputs \<le> 0 \<or> sectionHeight inputs \<le> 0))"
  then have "beamLength inputs \<le> 0 \<or> load inputs \<le> 0 \<or> modulusOfElasticity inputs \<le> 0 \<or>
      section_properties inputs = None"
    unfolding section_properties_None by auto
  then show c: "calculate inputs = SetResultNull" by (rule calculate_SetResultNull)
  then show "result_after inputs result = None" by (simp add: result_after_def)
next
  assume "loadType inputs = PointLoad \<and>
      (loadPosition inputs < 0 \<or> beamLength inputs < loadPosition inputs)"
  then have "\<not> accepted inputs" by (auto simp: accepted_def)
  then show "\<not> is_SetResult (calculate inputs)" by (simp add: is_SetResult_calculate)
qed

text \<open>
  The theorem at a zero length, with an earlier result in the state, and at a load
  position of 11 m on the 10 m beam.
\<close>

theorem calculate_rejects_witness:
  "calculate (initialInputs\<lparr>beamLength := 0\<rparr>) = SetResultNull \<and>
   result_after (initialInputs\<lparr>beamLength := 0\<rparr>)
     (Some (the_result (calculate initialInputs))) = None \<and>
   \<not> is_SetResult (calculate (initialInputs\<lparr>loadPosition := 11\<rparr>))"
  using calculate_rejects [of "initialInputs\<lparr>beamLength := 0\<rparr>"
      "Some (the_result (calculate initialInputs))"]
    calculate_rejects [of "initialInputs\<lparr>loadPosition := 11\<rparr>"]
  by (simp add: initialInputs_def)

text \<open>
  Claim C1 as stated fails: an I-beam of the initial 150 x 300 mm outline with a web of
  300 mm (wider than the flange) and flanges of 300 mm (together higher than the
  section) is accepted, and the result that is stored has a moment of inertia of 0 and a
  stress that is not a finite number.
\<close>

theorem invalid_ibeam_counterexample:
  "sectionWidth
     (initialInputs\<lparr>crossSection := IBeam, flangeThickness := 300, webThickness := 300\<rparr>)
     \<le> webThickness
     (initialInputs\<lparr>crossSection := IBeam, flangeThickness := 300, webThickness := 300\<rparr>) \<and>
   is_SetResult (calculate
     (initialInputs\<lparr>crossSection := IBeam, flangeThickness := 300, webThickness := 300\<rparr>)) \<and>
   momentOfInertia (the_result (calculate
     (initialInputs\<lparr>crossSection := IBeam, flangeThickness := 300, webThickness := 300\<rparr>))) = 0 \<and>
   maxStress (the_result (calculate
     (initialInputs\<lparr>crossSection := IBeam, flangeThickness := 300, webThickness := 300\<rparr>))) = None"
proof -
  let ?inp = "initialInputs\<lparr>crossSection := IBeam, flangeThickness := 300, webThickness := 300\<rparr>"
  have s: "section_properties ?inp = Some (0, 3 / 20)"
    by (simp add: section_properties_def initialInputs_def Let_def power3_eq_cube)
  have "accepted ?inp" by (simp add: accepted_def initialInputs_def)
  then obtain I c_m lc where "section_properties ?inp = Some (I, c_m)"
    and c: "calculate ?inp = SetResult (newResult ?inp I c_m lc)"
    by (rule accepted_calculate)
  with s have "I = 0" by simp
  with c have "calculate ?inp = SetResult (newResult ?inp 0 c_m lc)" by simp
  then show ?thesis by (simp add: newResult_fields jsdiv_def initialInputs_def)
qed

text \<open>
  Claim C2, as the code has it. For an I-beam with a width or a height that is not
  positive the cross-section block fails and \<^verbatim>\<open>calculate\<close> clears the result.
  For an I-beam whose four dimensions are positive it yields
  \<open>I = b h^3 / 12 - (b - tw) (h - 2 tf)^3 / 12\<close> in metres and \<open>c = h / 2\<close>, also
  when \<open>tw \<ge> b\<close> or \<open>2 tf \<ge> h\<close>, and that \<open>I\<close> is the moment of inertia of the
  result when the other inputs are accepted.
\<close>

theorem ibeam_section:
  "crossSection inputs = IBeam \<Longrightarrow>
   (sectionWidth inputs \<le> 0 \<or> sectionHeight inputs \<le> 0
      \<longrightarrow> section_properties inputs = None \<and> calculate inputs = SetResultNull) \<and>
   (0 < sectionWidth inputs \<and> 0 < sectionHeight inputs \<and>
    0 < flangeThickness inputs \<and> 0 < webThickness inputs
      \<longrightarrow> section_properties inputs =
        Some (((sectionWidth inputs / 1000) * (sectionHeight inputs / 1000) ^ 3) / 12
                - (((sectionWidth inputs / 1000 - webThickness inputs / 1000)
                     * (sectionHeight inputs / 1000 - 2 * (flangeThickness inputs / 1000)) ^ 3)
                   / 12),
              (sectionHeight inputs / 1000) / 2)) \<and>
   (accepted inputs \<and> 0 < flangeThickness inputs \<and> 0 < webThickness inputs
      \<longrightarrow> is_SetResult (calculate inputs) \<and>
        momentOfInertia (the_result (calculate inputs)) =
          ((sectionWidth inputs / 1000) * (sectionHeight inputs / 1000) ^ 3) / 12
          - (((sectionWidth inputs / 1000 - webThickness inputs / 1000)
               * (sectionHeight inputs / 1000 - 2 * (flangeThickness inputs / 1000)) ^ 3) / 12))"
proof -
  assume ib: "crossSection inputs = IBeam"
  define Ib where "Ib = ((sectionWidth inputs / 1000) * (sectionHeight inputs / 1000) ^ 3) / 12
        - (((sectionWidth inputs / 1000 - webThickness inputs / 1000)
             * (sectionHeight inputs / 1000 - 2 * (flangeThickness inputs / 1000)) ^ 3) / 12)"
  have s: "section_properties inputs =
     (if sectionWidth inputs \<le> 0 \<or> sectionHeight inputs \<le> 0 then None
      else Some (Ib, (sectionHeight inputs / 1000) / 2))"
    using ib unfolding section_properties_def Let_def Ib_def by simp
  have n: "sectionWidth inputs \<le> 0 \<or> sectionHeight inputs \<le> 0
      \<longrightarrow> section_properties inputs = None \<and> calculate inputs = SetResultNull"
    using s by (auto intro: calculate_SetResultNull)
  have y: "0 < sectionWidth inputs \<and> 0 < sectionHeight inputs \<and>
      0 < flangeThickness inputs \<and> 0 < webThickness inputs
      \<longrightarrow> section_properties inputs = Some (Ib, (sectionHeight inputs / 1000) / 2)"
    using s by auto
  have r: "accepted inputs \<and> 0 < flangeThickness inputs \<and> 0 < webThickness inputs \<longrightarrow>
      is_SetResult (calculate inputs) \<and> momentOfInertia (the_result (calculate inputs)) = Ib"
  proof
    assume "accepted inputs \<and> 0 < flangeThickness inputs \<and> 0 < webThickness inputs"
    then have a: "accepted inputs" by simp
    then obtain I c_m lc where sp: "section_properties inputs = Some (I, c_m)"
      and c: "calculate inputs = SetResult (newResult inputs I c_m lc)"
      by (rule accepted_calculate)
    from a ib have "\<not> (sectionWidth inputs \<le> 0 \<or> sectionHeight inputs \<le> 0)"
      by (simp add: accepted_def)
    with s sp have "I = Ib" by simp
    with c show "is_SetResult (calculate inputs) \<and>
        momentOfInertia (the_result (calculate inputs)) = Ib"
      by (simp add: newResult_fields)
  qed
  from n y r show ?thesis unfolding Ib_def by blast
qed

text \<open>
  The theorem at the initial I-beam (150 x 300 mm, flanges 15 mm, web 10 mm), and at
  the same section with width 0.
\<close>

theorem ibeam_section_witness:
  "crossSection (initialInputs\<lparr>crossSection := IBeam\<rparr>) = IBeam \<and>
   accepted (initialInputs\<lparr>crossSection := IBeam\<rparr>) \<and>
   is_SetResult (calculate (initialInputs\<lparr>crossSection := IBeam\<rparr>)) \<and>
   momentOfInertia (the_result (calculate (initialInputs\<lparr>crossSection := IBeam\<rparr>)))
     = 107865 / 10 ^ 9 \<and>
   calculate (initialInputs\<lparr>crossSection := IBeam, sectionWidth := 0\<rparr>) = SetResultNull"
  using ibeam_section [of "initialInputs\<lparr>crossSection := IBeam\<rparr>"]
    ibeam_section [of "initialInputs\<lparr>crossSection := IBeam, sectionWidth := 0\<rparr>"]
  by (simp add: initialInputs_def accepted_def power3_eq_cube)

text \<open>
  Claim C2 as stated fails: with a web as thick as the flange is wide (\<open>tw = b\<close>) the
  section is not refused; the result carries the moment of inertia of the full
  rectangle.
\<close>

theorem ibeam_wide_web_counterexample:
  "sectionWidth (initialInputs\<lparr>crossSection := IBeam, webThickness := 150\<rparr>)
     \<le> webThickness (initialInputs\<lparr>crossSection := IBeam, webThickness := 150\<rparr>) \<and>
   is_SetResult (calculate (initialInputs\<lparr>crossSection := IBeam, webThickness := 150\<rparr>)) \<and>
   momentOfInertia (the_result (calculate
     (initialInputs\<lparr>crossSection := IBeam, webThickness := 150\<rparr>))) = 3375 / 10 ^ 7"
proof -
  let ?inp = "initialInputs\<lparr>crossSection := IBeam, webThickness := 150\<rparr>"
  have s: "section_properties ?inp = Some (3375 / 10 ^ 7, 3 / 20)"
    by (simp add: section_properties_def initialInputs_def Let_def power3_eq_cube)
  have "accepted ?inp" by (simp add: accepted_def initialInputs_def)
  then obtain I c_m lc where "section_properties ?inp = Some (I, c_m)"
    and c: "calculate ?inp = SetResult (newResult ?inp I c_m lc)"
    by (rule accepted_calculate)
  with s have "I = 3375 / 10 ^ 7" by simp
  with c have "calculate ?inp = SetResult (newResult ?inp (3375 / 10 ^ 7) c_m lc)" by simp
  then show ?thesis by (simp add: newResult_fields initialInputs_def)
qed

section \<open>Uniformly distributed load and the load position\<close>

lemma udl_diagram_point:
  "loadType inputs = Udl \<Longrightarrow>
   diagram_point (inputs\<lparr>loadPosition := a\<rparr>) I rs = diagram_point inputs I rs"
  by (rule ext)
    (simp add: diagram_point_def sample_x_def moment_Nm_def shear_N_def deflection_m_def Let_def)

lemma udl_newResult:
  "loadType inputs = Udl \<Longrightarrow>
   newResult (inputs\<lparr>loadPosition := a\<rparr>) I c_m lc = newResult inputs I c_m lc"
  unfolding newResult_def by (simp only: udl_diagram_point)

lemma udl_load_case:
  "loadType inputs = Udl \<Longrightarrow> load_case (inputs\<lparr>loadPosition := a\<rparr>) = load_case inputs"
  by (simp add: load_case_def Let_def)

lemma section_properties_loadPosition:
  "section_properties (inputs\<lparr>loadPosition := a\<rparr>) = section_properties inputs"
  by (simp add: section_properties_def Let_def)

text \<open>
  Claim C8. Under a uniformly distributed load, replacing the load position by any
  other value changes nothing: \<^verbatim>\<open>calculate\<close> has the same outcome (the same result,
  field by field and point by point, when there is one), and leaves the same state.
\<close>

theorem udl_ignores_loadPosition:
  "loadType inputs = Udl \<Longrightarrow>
   calculate (inputs\<lparr>loadPosition := a\<rparr>) = calculate inputs \<and>
   result_after (inputs\<lparr>loadPosition := a\<rparr>) result = result_after inputs result"
  by (simp add: calculate_def result_after_def udl_newResult udl_load_case
      section_properties_loadPosition split: option.splits prod.splits)

text \<open>The theorem on the initial beam under a distributed load, position 5 against 7.\<close>

theorem udl_ignores_loadPosition_witness:
  "loadType (initialInputs\<lparr>loadType := Udl\<rparr>) = Udl \<and>
   calculate (initialInputs\<lparr>loadType := Udl, loadPosition := 7\<rparr>)
     = calculate (initialInputs\<lparr>loadType := Udl\<rparr>) \<and>
   is_SetResult (calculate (initialInputs\<lparr>loadType := Udl\<rparr>))"
  using udl_ignores_loadPosition [of "initialInputs\<lparr>loadType := Udl\<rparr>" 7]
  by (simp add: is_SetResult_calculate accepted_def initialInputs_def)

section \<open>The diagram\<close>

lemma pt_x_diagram_point: "pt_x (diagram_point inputs I rs i) = toFixed2 (sample_x inputs i)"
  by (simp add: diagram_point_def Let_def)


lemma shear_diagram_point:
  "shear (diagram_point inputs I rs i) = toFixed2 (shear_N inputs rs (sample_x inputs i) / 1000)"
  by (simp add: diagram_point_def Let_def)

lemma sample_x_0: "sample_x inputs 0 = 0"
  by (simp add: sample_x_def binary64_zero)

lemma sample_x_nonneg: "0 < beamLength inputs \<Longrightarrow> 0 \<le> sample_x inputs i"
  unfolding sample_x_def by (intro binary64_nonneg mult_nonneg_nonneg) simp_all

lemma sample_x_mono:
  assumes "0 < beamLength inputs" "i \<le> j"
  shows "sample_x inputs i \<le> sample_x inputs j"
proof -
  have "0 \<le> binary64 (beamLength inputs / 100)" using assms(1) by (intro binary64_nonneg) simp
  then have "binary64 (beamLength inputs / 100) * real i \<le> binary64 (beamLength inputs / 100) * real j"
    using assms(2) by (intro mult_left_mono) simp_all
  then show ?thesis unfolding sample_x_def by (rule binary64_mono)
qed

text \<open>The two roundings move a position by at most three units in 2^53 of its size.\<close>

lemma sample_x_error:
  assumes "0 < beamLength inputs"
  shows "\<bar>sample_x inputs i - (beamLength inputs / 100) * real i\<bar>
           \<le> 3 * ((beamLength inputs / 100) * real i) / 2 ^ 53"
proof -
  define c where "c = beamLength inputs / 100"
  define A where "A = c * real i"
  define B where "B = binary64 c * real i"
  have c: "0 \<le> c" using assms by (simp add: c_def)
  have A: "0 \<le> A" using c by (simp add: A_def)
  have "\<bar>binary64 c - c\<bar> \<le> c / 2 ^ 53" using binary64_error [of c] c by simp
  then have "\<bar>binary64 c - c\<bar> * real i \<le> c / 2 ^ 53 * real i"
    by (intro mult_right_mono) simp_all
  then have 1: "\<bar>B - A\<bar> \<le> A / 2 ^ 53"
    by (simp add: A_def B_def left_diff_distrib [symmetric] abs_mult)
  have "0 \<le> binary64 c" using c by (rule binary64_nonneg)
  then have B: "0 \<le> B" by (simp add: B_def)
  have 2: "\<bar>binary64 B - B\<bar> \<le> B / 2 ^ 53" using binary64_error [of B] B by simp
  have "A / 2 ^ 53 \<le> A" using A by (simp add: field_simps)
  with 1 have "B \<le> 2 * A" by linarith
  then have "B / 2 ^ 53 \<le> 2 * A / 2 ^ 53" by (simp add: divide_right_mono)
  with 1 2 have "\<bar>binary64 B - A\<bar> \<le> 3 * A / 2 ^ 53" by linarith
  then show ?thesis unfolding sample_x_def A_def B_def c_def .
qed

lemma sample_x_bounds:
  assumes "0 < beamLength inputs"
  shows "(beamLength inputs / 100) * real i * (1 - 3 / 2 ^ 53) \<le> sample_x inputs i"
    and "sample_x inputs i \<le> (beamLength inputs / 100) * real i * (1 + 3 / 2 ^ 53)"
proof -
  define A where "A = (beamLength inputs / 100) * real i"
  define u :: real where "u = 3 / 2 ^ 53"
  have "\<bar>sample_x inputs i - A\<bar> \<le> 3 * A / 2 ^ 53"
    unfolding A_def using assms by (rule sample_x_error)
  then have e: "\<bar>sample_x inputs i - A\<bar> \<le> A * u" by (simp add: u_def)
  then have "A - A * u \<le> sample_x inputs i" "sample_x inputs i \<le> A + A * u"
    by (simp_all add: abs_le_iff)
  then have "A * (1 - u) \<le> sample_x inputs i" "sample_x inputs i \<le> A * (1 + u)"
    by (simp_all only: right_diff_distrib distrib_left mult_1_right)
  then show "(beamLength inputs / 100) * real i * (1 - 3 / 2 ^ 53) \<le> sample_x inputs i"
    and "sample_x inputs i \<le> (beamLength inputs / 100) * real i * (1 + 3 / 2 ^ 53)"
    unfolding A_def u_def by simp_all
qed

text \<open>
  With a span of at least 1 m, two samples are 0.01 apart when the span is a little
  above 1 m, and sit within rounding of \<open>i / 100\<close> when it is not; their two-decimal
  roundings differ either way.
\<close>

lemma toFixed2_sample_x_strict:
  assumes L: "1 \<le> beamLength inputs" and ij: "i < j" "j \<le> 100"
  shows "toFixed2 (sample_x inputs i) < toFixed2 (sample_x inputs j)"
proof (cases "1 + 700 / 2 ^ 53 \<le> beamLength inputs")
  case True
  from L have L0: "0 < beamLength inputs" by simp
  define c where "c = beamLength inputs / 100"
  define D where "D = real j - real i - (3 / 2 ^ 53) * (real i + real j)"
  have c: "0 \<le> c" using L0 by (simp add: c_def)
  from ij have d: "real i + 1 \<le> real j" and "real i + real j \<le> 200" by simp_all
  then have "(3 / 2 ^ 53) * (real i + real j) \<le> (3 / 2 ^ 53) * 200"
    by (intro mult_left_mono) simp_all
  with d have D: "1 - 600 / 2 ^ 53 \<le> D" unfolding D_def by linarith
  have "c * real j * (1 - 3 / 2 ^ 53) - c * real i * (1 + 3 / 2 ^ 53) = c * D"
    unfolding D_def by (simp only: algebra_simps)
  with sample_x_bounds(1) [OF L0, of j] sample_x_bounds(2) [OF L0, of i]
  have "c * D \<le> sample_x inputs j - sample_x inputs i" unfolding c_def by linarith
  moreover have "c * (1 - 600 / 2 ^ 53) \<le> c * D" using c D by (rule mult_left_mono [rotated])
  moreover have "1 / 100 \<le> c * (1 - 600 / 2 ^ 53)"
    using True unfolding c_def by simp
  ultimately have "sample_x inputs i + 1 / 100 \<le> sample_x inputs j" by linarith
  with sample_x_nonneg [OF L0] show ?thesis by (rule toFixed2_step)
next
  case False
  from L have L0: "0 < beamLength inputs" by simp
  have fixed: "toFixed2 (sample_x inputs k) = real k / 100" if k: "k \<le> 100" for k
  proof -
    define A where "A = (beamLength inputs / 100) * real k"
    have k': "real k \<le> 100" using k by simp
    have "(1 / 100) * real k \<le> A"
      unfolding A_def using L by (intro mult_right_mono) simp_all
    moreover have "A \<le> ((1 + 700 / 2 ^ 53) / 100) * real k"
      unfolding A_def using False by (intro mult_right_mono) simp_all
    moreover have "A * (1 - 3 / 2 ^ 53) \<le> sample_x inputs k"
      "sample_x inputs k \<le> A * (1 + 3 / 2 ^ 53)"
      unfolding A_def using sample_x_bounds [OF L0, of k] by simp_all
    ultimately have lo: "real k - 1 / 4 \<le> sample_x inputs k * 100"
      and hi: "sample_x inputs k * 100 \<le> real k + 1 / 4"
      using k' by (simp_all add: algebra_simps)
    have x0: "0 \<le> sample_x inputs k" using L0 by (rule sample_x_nonneg)
    have "sample_x inputs k < 10 ^ 21" using hi k' by simp
    with x0 have "toFixed2 (sample_x inputs k) = of_int \<lfloor>sample_x inputs k * 100 + 1 / 2\<rfloor> / 100"
      by (rule toFixed2_nonneg)
    moreover have "\<lfloor>sample_x inputs k * 100 + 1 / 2\<rfloor> = int k"
      using lo hi by (simp add: floor_eq_iff)
    ultimately show ?thesis by simp
  qed
  from ij show ?thesis by (simp add: fixed)
qed

lemma toFixed2_near:
  assumes "0 \<le> v" "v < 10 ^ 21" "real k - 1 / 2 \<le> v * 100" "v * 100 < real k + 1 / 2"
  shows "toFixed2 v = real k / 100"
proof -
  have "\<lfloor>v * 100 + 1 / 2\<rfloor> = int k"
    using assms(3,4) by (simp add: floor_eq_iff)
  moreover from assms(1,2) have "toFixed2 v = of_int \<lfloor>v * 100 + 1 / 2\<rfloor> / 100"
    by (rule toFixed2_nonneg)
  ultimately show ?thesis by simp
qed

text \<open>
  Claim C3, as the code has it. Every accepted input yields a diagram of exactly 101
  points. The position stored in point \<open>i\<close> is the double \<^verbatim>\<open>(L_m / 100) * i\<close> of
  the loop, rounded to two decimals by \<^verbatim>\<open>toFixed(2)\<close>. That double is
  \<open>(L / 100) i\<close> up to three units in \<open>2^53\<close> of its size, so the stored position is
  not \<open>(L / 100) i\<close>, and not always the two-decimal rounding of the exact
  \<open>(L / 100) i\<close> either. The first position is 0. The positions never decrease, and
  they increase strictly when \<open>L\<close> is at least 1 m.
\<close>

theorem diagram_shape:
  "accepted inputs \<Longrightarrow>
   (\<exists>r. calculate inputs = SetResult r \<and>
      length (diagramData r) = 101 \<and>
      (\<forall>i\<le>100. pt_x (diagramData r ! i) = toFixed2 (sample_x inputs i) \<and>
         \<bar>sample_x inputs i - (beamLength inputs / 100) * real i\<bar>
           \<le> 3 * ((beamLength inputs / 100) * real i) / 2 ^ 53) \<and>
      pt_x (diagramData r ! 0) = 0 \<and>
      (\<forall>i j. i \<le> j \<and> j \<le> 100 \<longrightarrow> pt_x (diagramData r ! i) \<le> pt_x (diagramData r ! j)) \<and>
      (1 \<le> beamLength inputs \<longrightarrow>
         (\<forall>i j. i < j \<and> j \<le> 100 \<longrightarrow> pt_x (diagramData r ! i) < pt_x (diagramData r ! j))))"
proof -
  assume a: "accepted inputs"
  then have L: "0 < beamLength inputs" by (simp add: accepted_def)
  from a obtain I c_m lc where c: "calculate inputs = SetResult (newResult inputs I c_m lc)"
    by (rule accepted_calculate)
  let ?d = "diagramData (newResult inputs I c_m lc)"
  have x: "pt_x (?d ! i) = toFixed2 (sample_x inputs i)" if "i \<le> 100" for i
    using that by (simp add: nth_diagram pt_x_diagram_point)
  have 1: "\<forall>i\<le>100. pt_x (?d ! i) = toFixed2 (sample_x inputs i) \<and>
         \<bar>sample_x inputs i - (beamLength inputs / 100) * real i\<bar>
           \<le> 3 * ((beamLength inputs / 100) * real i) / 2 ^ 53"
    using x sample_x_error [OF L] by blast
  have 2: "pt_x (?d ! 0) = 0" by (simp add: x sample_x_0 toFixed2_zero)
  have 3: "\<forall>i j. i \<le> j \<and> j \<le> 100 \<longrightarrow> pt_x (?d ! i) \<le> pt_x (?d ! j)"
    using L by (auto simp: x intro!: toFixed2_mono sample_x_mono)
  have 4: "1 \<le> beamLength inputs \<longrightarrow>
         (\<forall>i j. i < j \<and> j \<le> 100 \<longrightarrow> pt_x (?d ! i) < pt_x (?d ! j))"
    by (auto simp: x intro!: toFixed2_sample_x_strict)
  from c 1 2 3 4 show ?thesis by simp
qed

text \<open>The theorem on the initial beam of 10 m.\<close>

lemma sample_x_initial_100:
  "9999 / 1000 \<le> sample_x initialInputs 100" "sample_x initialInputs 100 \<le> 10001 / 1000"
proof -
  have L: "0 < beamLength initialInputs" by (simp add: initialInputs_def)
  have "(beamLength initialInputs / 100) * real 100 = 10" by (simp add: initialInputs_def)
  with sample_x_bounds [OF L, of 100]
  show "9999 / 1000 \<le> sample_x initialInputs 100" "sample_x initialInputs 100 \<le> 10001 / 1000"
    by simp_all
qed

theorem diagram_shape_witness:
  "accepted initialInputs \<and>
   (\<exists>r. calculate initialInputs = SetResult r \<and>
      length (diagramData r) = 101 \<and>
      pt_x (diagramData r ! 0) = 0 \<and>
      pt_x (diagramData r ! 100) = 10 \<and>
      pt_x (diagramData r ! 99) < pt_x (diagramData r ! 100))"
proof -
  have a: "accepted initialInputs" by (simp add: accepted_def initialInputs_def)
  have L: "beamLength initialInputs = 10" by (simp add: initialInputs_def)
  have t: "toFixed2 (sample_x initialInputs 100) = real 1000 / 100"
    using sample_x_initial_100 by (intro toFixed2_near) simp_all
  from diagram_shape [OF a] obtain r where r: "calculate initialInputs = SetResult r"
    "length (diagramData r) = 101" "pt_x (diagramData r ! 0) = 0"
    and x: "\<forall>i\<le>100. pt_x (diagramData r ! i) = toFixed2 (sample_x initialInputs i) \<and>
         \<bar>sample_x initialInputs i - (beamLength initialInputs / 100) * real i\<bar>
           \<le> 3 * ((beamLength initialInputs / 100) * real i) / 2 ^ 53"
    and asc: "1 \<le> beamLength initialInputs \<longrightarrow>
         (\<forall>i j. i < j \<and> j \<le> 100 \<longrightarrow> pt_x (diagramData r ! i) < pt_x (diagramData r ! j))"
    by blast
  from asc have "pt_x (diagramData r ! 99) < pt_x (diagramData r ! 100)" by (simp add: L)
  moreover from x t have "pt_x (diagramData r ! 100) = 10" by simp
  ultimately show ?thesis using r a by simp
qed

text \<open>
  Claim C3 as stated fails: on a span of 0.25 m, with the load at 0.125 m, the sample
  at about \<open>0.0025\<close> is stored as \<open>0\<close>, equal to the position before it and
  different from \<open>(L / 100) 1\<close>.
\<close>

theorem short_span_counterexample:
  "accepted (initialInputs\<lparr>beamLength := 1 / 4, loadPosition := 1 / 8\<rparr>) \<and>
   pt_x (diagramData (the_result (calculate
     (initialInputs\<lparr>beamLength := 1 / 4, loadPosition := 1 / 8\<rparr>))) ! 0) = 0 \<and>
   pt_x (diagramData (the_result (calculate
     (initialInputs\<lparr>beamLength := 1 / 4, loadPosition := 1 / 8\<rparr>))) ! 1) = 0 \<and>
   (beamLength (initialInputs\<lparr>beamLength := 1 / 4, loadPosition := 1 / 8\<rparr>) / 100) * 1 \<noteq> 0"
proof -
  let ?inp = "initialInputs\<lparr>beamLength := 1 / 4, loadPosition := 1 / 8\<rparr>"
  have a: "accepted ?inp" by (simp add: accepted_def initialInputs_def)
  then obtain I c_m lc where c: "calculate ?inp = SetResult (newResult ?inp I c_m lc)"
    by (rule accepted_calculate)
  have L: "0 < beamLength ?inp" by (simp add: initialInputs_def)
  have "(beamLength ?inp / 100) * real 1 = 1 / 400" by (simp add: initialInputs_def)
  with sample_x_bounds(2) [OF L, of 1] have "sample_x ?inp 1 \<le> 1 / 300" by simp
  with sample_x_nonneg [OF L, of 1] have "toFixed2 (sample_x ?inp 1) = real 0 / 100"
    by (intro toFixed2_near) simp_all
  then have 1: "pt_x (diagramData (newResult ?inp I c_m lc) ! 1) = 0"
    by (simp add: nth_diagram pt_x_diagram_point)
  have 0: "pt_x (diagramData (newResult ?inp I c_m lc) ! 0) = 0"
    by (simp add: nth_diagram pt_x_diagram_point sample_x_0 toFixed2_zero)
  from a c 0 1 show ?thesis by (simp add: initialInputs_def)
qed

text \<open>
  The last position is the rounded double, not the rounded span: for \<open>L = 3.625\<close> the
  loop ends at the double \<open>3.6249999999999996\<close> and stores \<open>3.62\<close>, where \<open>L\<close>
  itself rounds to \<open>3.63\<close>.
\<close>

lemma binary64_at:
  assumes "2 powr of_int e \<le> v" "v < 2 powr of_int (e + 1)"
  shows "binary64 v =
    of_int (round_half_even (v / 2 powr of_int (e - 52))) * 2 powr of_int (e - 52)"
proof -
  have "0 < (2::real) powr of_int e" by simp
  with assms(1) have v: "0 < v" by linarith
  from assms have "\<lfloor>log 2 v\<rfloor> = e"
    using floor_log_eq_powr_iff [of v 2 e] v by simp
  with binary64_pos [OF v] show ?thesis by simp
qed

lemma c_3625: "binary64 (29 / 800) = 5224175567749775 / 2 ^ 57"
proof -
  have "binary64 (29 / 800) =
    of_int (round_half_even ((29 / 800) / 2 powr of_int (- 5 - 52))) * 2 powr of_int (- 5 - 52)"
    by (rule binary64_at) (simp_all add: powr_minus_divide)
  also have "\<dots> = 5224175567749775 / 2 ^ 57"
    by (simp add: powr_minus_divide round_half_even_def Let_def)
  finally show ?thesis .
qed

lemma sample_x_3625: "sample_x (initialInputs\<lparr>beamLength := 29 / 8\<rparr>) 100 = 8162774324609023 / 2 ^ 51"
proof -
  have "binary64 (5224175567749775 / 2 ^ 57 * real 100) =
    of_int (round_half_even ((5224175567749775 / 2 ^ 57 * real 100) / 2 powr of_int (1 - 52))) * 2 powr of_int (1 - 52)"
    by (rule binary64_at) (simp_all add: powr_minus_divide)
  also have "\<dots> = 8162774324609023 / 2 ^ 51"
    by (simp add: powr_minus_divide round_half_even_def Let_def)
  finally show ?thesis by (simp add: sample_x_def initialInputs_def c_3625)
qed

lemma last_x_3625:
  "toFixed2 (sample_x (initialInputs\<lparr>beamLength := 29 / 8\<rparr>) 100) = 362 / 100"
  "toFixed2 (29 / 8) = 363 / 100"
  by (simp_all add: sample_x_3625 toFixed2_def)

text \<open>
  Likewise at a tie: for \<open>L = 1.5\<close> sample 1 is the double just below \<open>0.015\<close> and
  is stored as \<open>0.01\<close>, where the exact \<open>0.015\<close> would round to \<open>0.02\<close>.
\<close>

lemma sample_x_one_and_a_half:
  "sample_x (initialInputs\<lparr>beamLength := 3 / 2\<rparr>) 1 = 8646911284551352 / 2 ^ 59"
  "toFixed2 (sample_x (initialInputs\<lparr>beamLength := 3 / 2\<rparr>) 1) = 1 / 100"
  "toFixed2 ((3 / 2) / 100 * 1) = 2 / 100"
proof -
  have "binary64 (3 / 200) =
    of_int (round_half_even ((3 / 200) / 2 powr of_int (- 7 - 52))) * 2 powr of_int (- 7 - 52)"
    by (rule binary64_at) (simp_all add: powr_minus_divide)
  also have "\<dots> = 8646911284551352 / 2 ^ 59"
    by (simp add: powr_minus_divide round_half_even_def Let_def)
  finally have c: "binary64 (3 / 200) = 8646911284551352 / 2 ^ 59" .
  have "binary64 (8646911284551352 / 2 ^ 59) =
    of_int (round_half_even ((8646911284551352 / 2 ^ 59) / 2 powr of_int (- 7 - 52)))
      * 2 powr of_int (- 7 - 52)"
    by (rule binary64_at) (simp_all add: powr_minus_divide)
  also have "\<dots> = 8646911284551352 / 2 ^ 59"
    by (simp add: powr_minus_divide round_half_even_def Let_def)
  finally show s: "sample_x (initialInputs\<lparr>beamLength := 3 / 2\<rparr>) 1 = 8646911284551352 / 2 ^ 59"
    by (simp add: sample_x_def initialInputs_def c)
  show "toFixed2 (sample_x (initialInputs\<lparr>beamLength := 3 / 2\<rparr>) 1) = 1 / 100"
    unfolding s by (simp add: toFixed2_def)
  show "toFixed2 ((3 / 2) / 100 * 1) = 2 / 100"
    by (simp add: toFixed2_def)
qed

section \<open>Reactions\<close>

text \<open>
  Claim C4. For every accepted simply supported input the two reactions of the result
  add up to the applied load, \<open>P\<close> for a point load and \<open>w L\<close> for a distributed
  one (all in kN), exactly and so within the relative tolerance \<open>10^-9\<close>; for every
  accepted cantilever the reaction \<open>r1\<close> is the applied load.
\<close>

theorem reaction_equilibrium:
  "accepted inputs \<Longrightarrow>
   (\<exists>r. calculate inputs = SetResult r \<and>
      (beamType inputs = SimplySupported \<and> loadType inputs = PointLoad \<longrightarrow>
         r1 (reactions r) + r2 (reactions r) = load inputs \<and>
         \<bar>r1 (reactions r) + r2 (reactions r) - load inputs\<bar> \<le> \<bar>load inputs\<bar> / 10 ^ 9) \<and>
      (beamType inputs = SimplySupported \<and> loadType inputs = Udl \<longrightarrow>
         r1 (reactions r) + r2 (reactions r) = load inputs * beamLength inputs \<and>
         \<bar>r1 (reactions r) + r2 (reactions r) - load inputs * beamLength inputs\<bar>
           \<le> \<bar>load inputs * beamLength inputs\<bar> / 10 ^ 9) \<and>
      (beamType inputs = Cantilever \<and> loadType inputs = PointLoad \<longrightarrow>
         r1 (reactions r) = load inputs) \<and>
      (beamType inputs = Cantilever \<and> loadType inputs = Udl \<longrightarrow>
         r1 (reactions r) = load inputs * beamLength inputs))"
proof -
  assume a: "accepted inputs"
  then have L: "beamLength inputs \<noteq> 0" by (simp add: accepted_def)
  from a obtain I c_m lc where l: "load_case inputs = Some lc"
    and c: "calculate inputs = SetResult (newResult inputs I c_m lc)"
    by (rule accepted_calculate)
  let ?r = "reactions (newResult inputs I c_m lc)"
  have 1: "r1 ?r + r2 ?r = load inputs"
    if "beamType inputs = SimplySupported" "loadType inputs = PointLoad"
    using l that L
    by (auto simp: load_case_def Let_def newResult_fields field_simps split: if_splits)
  have 2: "r1 ?r + r2 ?r = load inputs * beamLength inputs"
    if "beamType inputs = SimplySupported" "loadType inputs = Udl"
    using l that
    by (auto simp: load_case_def Let_def newResult_fields split: if_splits)
  have 3: "r1 ?r = load inputs"
    if "beamType inputs = Cantilever" "loadType inputs = PointLoad"
    using l that
    by (auto simp: load_case_def Let_def newResult_fields split: if_splits)
  have 4: "r1 ?r = load inputs * beamLength inputs"
    if "beamType inputs = Cantilever" "loadType inputs = Udl"
    using l that
    by (auto simp: load_case_def Let_def newResult_fields split: if_splits)
  from c 1 2 3 4 show ?thesis by simp
qed

text \<open>
  The theorem on the initial beam (point load of 100 kN), and on the same beam as a
  cantilever under 100 kN/m.
\<close>

theorem reaction_equilibrium_witness:
  "accepted initialInputs \<and>
   (\<exists>r. calculate initialInputs = SetResult r \<and> r1 (reactions r) + r2 (reactions r) = 100) \<and>
   accepted (initialInputs\<lparr>beamType := Cantilever, loadType := Udl\<rparr>) \<and>
   (\<exists>r. calculate (initialInputs\<lparr>beamType := Cantilever, loadType := Udl\<rparr>) = SetResult r \<and>
      r1 (reactions r) = 1000)"
proof -
  have a: "accepted initialInputs" by (simp add: accepted_def initialInputs_def)
  have b: "accepted (initialInputs\<lparr>beamType := Cantilever, loadType := Udl\<rparr>)"
    by (simp add: accepted_def initialInputs_def)
  from reaction_equilibrium [OF a]
  have 1: "\<exists>r. calculate initialInputs = SetResult r \<and> r1 (reactions r) + r2 (reactions r) = 100"
    by (auto simp: initialInputs_def)
  from reaction_equilibrium [OF b]
  have 2: "\<exists>r. calculate (initialInputs\<lparr>beamType := Cantilever, loadType := Udl\<rparr>) = SetResult r \<and>
      r1 (reactions r) = 1000"
    by (auto simp: initialInputs_def)
  from a b 1 2 show ?thesis by simp
qed

section \<open>The four load cases\<close>









text \<open>
  Which samples are before the load is decided on the doubles: on a cantilever of 29 m
  with the load at 14.5 m, sample 50 is the double \<open>14.499999999999998\<close>, before the
  load, and its point stores \<open>x = 14.5\<close> with the full shear.
\<close>

lemma c_29: "binary64 (29 / 100) = 5224175567749775 / 2 ^ 54"
proof -
  have "binary64 (29 / 100) =
    of_int (round_half_even ((29 / 100) / 2 powr of_int (- 2 - 52))) * 2 powr of_int (- 2 - 52)"
    by (rule binary64_at) (simp_all add: powr_minus_divide)
  also have "\<dots> = 5224175567749775 / 2 ^ 54"
    by (simp add: powr_minus_divide round_half_even_def Let_def)
  finally show ?thesis .
qed

lemma sample_x_29:
  "sample_x (initialInputs\<lparr>beamType := Cantilever, beamLength := 29, loadPosition := 29 / 2\<rparr>) 50
     = 8162774324609023 / 2 ^ 49"
proof -
  have "binary64 (5224175567749775 / 2 ^ 54 * real 50) =
    of_int (round_half_even ((5224175567749775 / 2 ^ 54 * real 50) / 2 powr of_int (3 - 52))) * 2 powr of_int (3 - 52)"
    by (rule binary64_at) (simp_all add: powr_minus_divide)
  also have "\<dots> = 8162774324609023 / 2 ^ 49"
    by (simp add: powr_minus_divide round_half_even_def Let_def)
  finally show ?thesis by (simp add: sample_x_def initialInputs_def c_29)
qed

lemma sample_before_load:
  "sample_x (initialInputs\<lparr>beamType := Cantilever, beamLength := 29, loadPosition := 29 / 2\<rparr>) 50
     < loadPosition (initialInputs\<lparr>beamType := Cantilever, beamLength := 29, loadPosition := 29 / 2\<rparr>)"
  "pt_x (diagramData (the_result (calculate
     (initialInputs\<lparr>beamType := Cantilever, beamLength := 29, loadPosition := 29 / 2\<rparr>))) ! 50)
     = 29 / 2"
  "shear (diagramData (the_result (calculate
     (initialInputs\<lparr>beamType := Cantilever, beamLength := 29, loadPosition := 29 / 2\<rparr>))) ! 50)
     = 100"
proof -
  let ?inp = "initialInputs\<lparr>beamType := Cantilever, beamLength := 29, loadPosition := 29 / 2\<rparr>"
  have v: "loadPosition ?inp = 29 / 2" "beamType ?inp = Cantilever" "loadType ?inp = PointLoad"
    by (simp_all add: initialInputs_def)
  show b: "sample_x ?inp 50 < loadPosition ?inp"
    unfolding v sample_x_29 by simp
  have "accepted ?inp" by (simp add: accepted_def initialInputs_def)
  then obtain I c_m lc where l: "load_case ?inp = Some lc"
    and c: "calculate ?inp = SetResult (newResult ?inp I c_m lc)"
    by (rule accepted_calculate)
  from l have r: "r1 (reactions_N lc) = 100000"
    by (auto simp: load_case_def Let_def initialInputs_def split: if_splits)
  have d: "diagramData (newResult ?inp I c_m lc) ! 50 = diagram_point ?inp I (reactions_N lc) 50"
    by (rule nth_diagram) simp
  have "toFixed2 (8162774324609023 / 2 ^ 49) = 29 / 2" by (simp add: toFixed2_def)
  then show "pt_x (diagramData (the_result (calculate ?inp)) ! 50) = 29 / 2"
    by (simp add: c d pt_x_diagram_point sample_x_29)
  have "shear_N ?inp (reactions_N lc) (sample_x ?inp 50) = 100000"
    using b by (simp add: shear_N_def r v(2,3))
  moreover have "toFixed2 100 = 100" by (simp add: toFixed2_def)
  ultimately show "shear (diagramData (the_result (calculate ?inp)) ! 50) = 100"
    by (simp add: c d shear_diagram_point)
qed

section \<open>Stress and peak moment\<close>

text \<open>
  Claim C7. For every accepted input with \<open>I\<close> and \<open>c\<close> from its cross-section, the
  result carries \<open>I\<close>, and when \<open>I\<close> is not zero \<open>maxStress\<close> is
  \<open>\<bar>maxMoment in N m\<bar> c / I / 10^6\<close>. For a rectangular section of width \<open>b\<close> and
  height \<open>h\<close> in mm, \<open>I = (b / 1000) (h / 1000)^3 / 12\<close>, which is positive, and
  \<open>c = (h / 1000) / 2\<close>; 150 x 300 mm gives \<open>I = 3.375 10^-4\<close>.
\<close>

theorem max_stress:
  "accepted inputs \<Longrightarrow>
   (\<exists>r I c_m. section_properties inputs = Some (I, c_m) \<and> calculate inputs = SetResult r \<and>
      momentOfInertia r = I \<and>
      (I \<noteq> 0 \<longrightarrow> maxStress r = Some (\<bar>maxMoment r * 1000\<bar> * c_m / I / 10 ^ 6)) \<and>
      (crossSection inputs = Rectangular \<longrightarrow>
         I = (sectionWidth inputs / 1000) * (sectionHeight inputs / 1000) ^ 3 / 12 \<and>
         c_m = (sectionHeight inputs / 1000) / 2 \<and> 0 < I) \<and>
      (crossSection inputs = Rectangular \<and> sectionWidth inputs = 150 \<and>
         sectionHeight inputs = 300 \<longrightarrow> I = 3375 / 10 ^ 7))"
proof -
  assume a: "accepted inputs"
  then obtain I c_m lc where s: "section_properties inputs = Some (I, c_m)"
    and c: "calculate inputs = SetResult (newResult inputs I c_m lc)"
    by (rule accepted_calculate)
  let ?r = "newResult inputs I c_m lc"
  have 1: "momentOfInertia ?r = I" by (simp add: newResult_fields)
  have 2: "I \<noteq> 0 \<longrightarrow> maxStress ?r = Some (\<bar>maxMoment ?r * 1000\<bar> * c_m / I / 10 ^ 6)"
    by (simp add: newResult_fields jsdiv_def)
  have 3: "I = (sectionWidth inputs / 1000) * (sectionHeight inputs / 1000) ^ 3 / 12 \<and>
         c_m = (sectionHeight inputs / 1000) / 2 \<and> 0 < I"
    if re: "crossSection inputs = Rectangular"
  proof -
    from a re have pos: "0 < sectionWidth inputs" "0 < sectionHeight inputs"
      by (simp_all add: accepted_def)
    with re have "section_properties inputs =
        Some ((sectionWidth inputs / 1000) * (sectionHeight inputs / 1000) ^ 3 / 12,
              (sectionHeight inputs / 1000) / 2)"
      by (simp add: section_properties_def Let_def)
    with s have "Some (I, c_m) =
        Some ((sectionWidth inputs / 1000) * (sectionHeight inputs / 1000) ^ 3 / 12,
              (sectionHeight inputs / 1000) / 2)"
      by (simp only:)
    then have i: "I = (sectionWidth inputs / 1000) * (sectionHeight inputs / 1000) ^ 3 / 12"
      and "c_m = (sectionHeight inputs / 1000) / 2"
      by (simp_all only: option.inject prod.inject)
    moreover from pos have "0 < I" unfolding i by simp
    ultimately show ?thesis by simp
  qed
  have 4: "crossSection inputs = Rectangular \<and> sectionWidth inputs = 150 \<and>
         sectionHeight inputs = 300 \<longrightarrow> I = 3375 / 10 ^ 7"
    using 3 by (auto simp: power3_eq_cube)
  from s c 1 2 3 4 show ?thesis by blast
qed

text \<open>The theorem on the initial beam: 250 kN m on the 150 x 300 mm rectangle.\<close>

theorem max_stress_witness:
  "accepted initialInputs \<and>
   (\<exists>r. calculate initialInputs = SetResult r \<and> momentOfInertia r = 3375 / 10 ^ 7 \<and>
      maxMoment r = 250 \<and> maxStress r = Some (1000 / 9))"
proof -
  have a: "accepted initialInputs" by (simp add: accepted_def initialInputs_def)
  have v: "crossSection initialInputs = Rectangular" "sectionWidth initialInputs = 150"
    "sectionHeight initialInputs = 300"
    by (simp_all add: initialInputs_def)
  from max_stress [OF a] obtain r I c_m where c: "calculate initialInputs = SetResult r"
    and i: "momentOfInertia r = I" "I = 3375 / 10 ^ 7" "c_m = (300 / 1000) / 2"
    and s: "I \<noteq> 0 \<longrightarrow> maxStress r = Some (\<bar>maxMoment r * 1000\<bar> * c_m / I / 10 ^ 6)"
    unfolding v by blast
  from a obtain I' c' lc where l: "load_case initialInputs = Some lc"
    and c': "calculate initialInputs = SetResult (newResult initialInputs I' c' lc)"
    by (rule accepted_calculate)
  from l have "maxMoment_Nm lc = 250000"
    by (auto simp: load_case_def Let_def initialInputs_def split: if_splits)
  moreover from c c' have "r = newResult initialInputs I' c' lc" by simp
  ultimately have m: "maxMoment r = 250" by (simp add: newResult_fields)
  from s i m have "maxStress r = Some (1000 / 9)" by simp
  with a c i m show ?thesis by simp
qed

text \<open>
  Claim C9. For every accepted cantilever the field \<open>maxMoment\<close> of the result is the
  moment reaction \<open>r2\<close> and is not positive: \<open>- P a / 1000\<close> for a point load and
  \<open>- w L^2 / 2 / 1000\<close> for a distributed load, with \<open>P\<close> and \<open>w\<close> in N and N/m
  (the load in kN times 1000). The absolute value enters \<open>maxStress\<close> only.
\<close>

theorem cantilever_maxMoment:
  "accepted inputs \<Longrightarrow> beamType inputs = Cantilever \<Longrightarrow>
   (\<exists>r I c_m. section_properties inputs = Some (I, c_m) \<and> calculate inputs = SetResult r \<and>
      maxMoment r \<le> 0 \<and>
      maxMoment r = r2 (reactions r) \<and>
      (loadType inputs = PointLoad \<longrightarrow>
         maxMoment r = - (load inputs * 1000) * loadPosition inputs / 1000) \<and>
      (loadType inputs = Udl \<longrightarrow>
         maxMoment r = - ((load inputs * 1000) * (beamLength inputs)\<^sup>2) / 2 / 1000) \<and>
      (I \<noteq> 0 \<longrightarrow> maxStress r = Some (\<bar>maxMoment r * 1000\<bar> * c_m / I / 10 ^ 6)))"
proof -
  assume a: "accepted inputs" and ca: "beamType inputs = Cantilever"
  from a have P: "0 < load inputs" and L: "0 < beamLength inputs" by (simp_all add: accepted_def)
  from a obtain I c_m lc where s: "section_properties inputs = Some (I, c_m)"
    and l: "load_case inputs = Some lc"
    and c: "calculate inputs = SetResult (newResult inputs I c_m lc)"
    by (rule accepted_calculate)
  let ?r = "newResult inputs I c_m lc"
  have 1: "maxMoment ?r = r2 (reactions ?r)"
    using l ca by (auto simp: load_case_def Let_def newResult_fields split: if_splits)
  have 2: "maxMoment ?r = - (load inputs * 1000) * loadPosition inputs / 1000"
    if "loadType inputs = PointLoad"
    using l ca that by (auto simp: load_case_def Let_def newResult_fields split: if_splits)
  have 3: "maxMoment ?r = - ((load inputs * 1000) * (beamLength inputs)\<^sup>2) / 2 / 1000"
    if "loadType inputs = Udl"
    using l ca that
    by (auto simp: load_case_def Let_def newResult_fields power2_eq_square split: if_splits)
  have 4: "maxMoment ?r \<le> 0"
  proof (cases "loadType inputs")
    case PointLoad
    with a have "0 \<le> loadPosition inputs" by (simp add: accepted_def)
    with P have "0 \<le> load inputs * loadPosition inputs" by simp
    then show ?thesis unfolding 2 [OF PointLoad] by simp
  next
    case Udl
    from P have "0 \<le> load inputs * (beamLength inputs)\<^sup>2" by simp
    then show ?thesis unfolding 3 [OF Udl] by simp
  qed
  have 5: "I \<noteq> 0 \<longrightarrow> maxStress ?r = Some (\<bar>maxMoment ?r * 1000\<bar> * c_m / I / 10 ^ 6)"
    by (simp add: newResult_fields jsdiv_def)
  from s c 1 2 3 4 5 show ?thesis by blast
qed

text \<open>
  The theorem on scenario C of the specification, 50 kN at the tip of a 5 m cantilever:
  the field is \<open>- 250\<close>.
\<close>

theorem cantilever_maxMoment_witness:
  "accepted (initialInputs\<lparr>beamLength := 5, load := 50, beamType := Cantilever\<rparr>) \<and>
   beamType (initialInputs\<lparr>beamLength := 5, load := 50, beamType := Cantilever\<rparr>) = Cantilever \<and>
   (\<exists>r. calculate (initialInputs\<lparr>beamLength := 5, load := 50, beamType := Cantilever\<rparr>)
           = SetResult r \<and>
      maxMoment r = - 250 \<and> r2 (reactions r) = - 250 \<and> maxMoment r < 0)"
proof -
  let ?inp = "initialInputs\<lparr>beamLength := 5, load := 50, beamType := Cantilever\<rparr>"
  have a: "accepted ?inp" by (simp add: accepted_def initialInputs_def)
  have b: "beamType ?inp = Cantilever" by (simp add: initialInputs_def)
  have v: "loadType ?inp = PointLoad" "load ?inp = 50" "loadPosition ?inp = 5"
    by (simp_all add: initialInputs_def)
  from cantilever_maxMoment [OF a b] obtain r where c: "calculate ?inp = SetResult r"
    and m: "maxMoment r = r2 (reactions r)"
      "loadType ?inp = PointLoad \<longrightarrow>
         maxMoment r = - (load ?inp * 1000) * loadPosition ?inp / 1000"
    by blast
  from m(2) have "maxMoment r = - 250" unfolding v by simp
  with a b c m(1) show ?thesis by simp
qed

section \<open>Point load at a support\<close>

text \<open>
  Claim C10. For a simply supported beam under a point load, with length, load and
  modulus positive and a cross-section that resolves to \<open>I\<close> and \<open>c\<close>, a result is
  stored exactly when \<open>0 \<le> a \<le> L\<close>. At \<open>a = 0\<close> and at \<open>a = L\<close> the result is
  complete (101 diagram points), \<open>maxMoment\<close> is 0, \<open>maxStress\<close> is 0 when \<open>I\<close>
  is not zero, and the reactions are \<open>(P, 0)\<close> and \<open>(0, P)\<close>.
\<close>

theorem boundary_point_load:
  "0 < beamLength inputs \<Longrightarrow> 0 < load inputs \<Longrightarrow> 0 < modulusOfElasticity inputs \<Longrightarrow>
   section_properties inputs = Some (I, c_m) \<Longrightarrow>
   beamType inputs = SimplySupported \<Longrightarrow> loadType inputs = PointLoad \<Longrightarrow>
   (is_SetResult (calculate inputs)
      \<longleftrightarrow> 0 \<le> loadPosition inputs \<and> loadPosition inputs \<le> beamLength inputs) \<and>
   (loadPosition inputs = 0 \<or> loadPosition inputs = beamLength inputs \<longrightarrow>
      (\<exists>r. calculate inputs = SetResult r \<and>
         length (diagramData r) = 101 \<and>
         maxMoment r = 0 \<and>
         (I \<noteq> 0 \<longrightarrow> maxStress r = Some 0) \<and>
         (loadPosition inputs = 0 \<longrightarrow>
            r1 (reactions r) = load inputs \<and> r2 (reactions r) = 0) \<and>
         (loadPosition inputs = beamLength inputs \<longrightarrow>
            r1 (reactions r) = 0 \<and> r2 (reactions r) = load inputs)))"
proof -
  assume L: "0 < beamLength inputs" and P: "0 < load inputs"
    and E: "0 < modulusOfElasticity inputs"
    and s: "section_properties inputs = Some (I, c_m)"
    and ss: "beamType inputs = SimplySupported" and pl: "loadType inputs = PointLoad"
  have acc: "accepted inputs \<longleftrightarrow>
      0 \<le> loadPosition inputs \<and> loadPosition inputs \<le> beamLength inputs"
    using L P E s pl section_properties_None [of inputs]
    by (auto simp: accepted_def split: if_splits)
  have 1: "is_SetResult (calculate inputs)
      \<longleftrightarrow> 0 \<le> loadPosition inputs \<and> loadPosition inputs \<le> beamLength inputs"
    by (simp add: is_SetResult_calculate acc)
  have 2: "\<exists>r. calculate inputs = SetResult r \<and>
         length (diagramData r) = 101 \<and>
         maxMoment r = 0 \<and>
         (I \<noteq> 0 \<longrightarrow> maxStress r = Some 0) \<and>
         (loadPosition inputs = 0 \<longrightarrow>
            r1 (reactions r) = load inputs \<and> r2 (reactions r) = 0) \<and>
         (loadPosition inputs = beamLength inputs \<longrightarrow>
            r1 (reactions r) = 0 \<and> r2 (reactions r) = load inputs)"
    if b: "loadPosition inputs = 0 \<or> loadPosition inputs = beamLength inputs"
  proof -
    from b L have "accepted inputs" unfolding acc by auto
    then obtain I' c' lc where s': "section_properties inputs = Some (I', c')"
      and l: "load_case inputs = Some lc"
      and c: "calculate inputs = SetResult (newResult inputs I' c' lc)"
      by (rule accepted_calculate)
    from s s' have eq: "I' = I" "c' = c_m" by simp_all
    let ?r = "newResult inputs I c_m lc"
    from b l ss pl L have m: "maxMoment_Nm lc = 0"
      by (auto simp: load_case_def Let_def split: if_splits)
    have r0: "r1 (reactions ?r) = load inputs \<and> r2 (reactions ?r) = 0"
      if "loadPosition inputs = 0"
      using that l ss pl L
      by (auto simp: load_case_def Let_def newResult_fields split: if_splits)
    have rL: "r1 (reactions ?r) = 0 \<and> r2 (reactions ?r) = load inputs"
      if "loadPosition inputs = beamLength inputs"
      using that l ss pl L
      by (auto simp: load_case_def Let_def newResult_fields split: if_splits)
    have "maxMoment ?r = 0" "I \<noteq> 0 \<longrightarrow> maxStress ?r = Some 0"
      by (simp_all add: newResult_fields m jsdiv_def)
    with c r0 rL show ?thesis unfolding eq by simp
  qed
  from 1 2 show ?thesis by blast
qed

text \<open>The theorem on the initial beam with the load at 0 m, at 10 m and at 11 m.\<close>

theorem boundary_point_load_witness:
  "section_properties (initialInputs\<lparr>loadPosition := 0\<rparr>) = Some (3375 / 10 ^ 7, 3 / 20) \<and>
   (\<exists>r. calculate (initialInputs\<lparr>loadPosition := 0\<rparr>) = SetResult r \<and>
      maxMoment r = 0 \<and> maxStress r = Some 0 \<and>
      r1 (reactions r) = 100 \<and> r2 (reactions r) = 0) \<and>
   (\<exists>r. calculate (initialInputs\<lparr>loadPosition := 10\<rparr>) = SetResult r \<and>
      maxMoment r = 0 \<and> maxStress r = Some 0 \<and>
      r1 (reactions r) = 0 \<and> r2 (reactions r) = 100) \<and>
   \<not> is_SetResult (calculate (initialInputs\<lparr>loadPosition := 11\<rparr>))"
proof -
  have s: "section_properties (initialInputs\<lparr>loadPosition := p\<rparr>) = Some (3375 / 10 ^ 7, 3 / 20)"
    for p
    by (simp add: section_properties_def initialInputs_def Let_def power3_eq_cube)
  have 0: "\<exists>r. calculate (initialInputs\<lparr>loadPosition := 0\<rparr>) = SetResult r \<and>
      maxMoment r = 0 \<and> maxStress r = Some 0 \<and>
      r1 (reactions r) = 100 \<and> r2 (reactions r) = 0"
    using boundary_point_load [OF _ _ _ s [of 0]] by (auto simp: initialInputs_def)
  have 1: "\<exists>r. calculate (initialInputs\<lparr>loadPosition := 10\<rparr>) = SetResult r \<and>
      maxMoment r = 0 \<and> maxStress r = Some 0 \<and>
      r1 (reactions r) = 0 \<and> r2 (reactions r) = 100"
    using boundary_point_load [OF _ _ _ s [of 10]] by (auto simp: initialInputs_def)
  have 2: "\<not> is_SetResult (calculate (initialInputs\<lparr>loadPosition := 11\<rparr>))"
    using boundary_point_load [OF _ _ _ s [of 11]] by (simp add: initialInputs_def)
  from s [of 0] 0 1 2 show ?thesis by simp
qed

end
